theory Spec2Isabelle
  imports Main
begin

section \<open>JavaScript values\<close>

text \<open>
  The values that cross the boundaries of \<^verbatim>\<open>server.ts\<close>: arguments of the remote
  method, parsed JSON, arguments handed to the code generators.  \<open>JUndefined\<close> is
  \<^verbatim>\<open>undefined\<close>; numbers are restricted to integers.
\<close>

datatype jsval =
    JUndefined
  | JNull
  | JBool bool
  | JNum int
  | JStr string
  | JArr "jsval list"
  | JObj "(string \<times> jsval) list"

text \<open>JavaScript's \<^verbatim>\<open>ToBoolean\<close>, as used by \<^verbatim>\<open>if (v)\<close> and \<^verbatim>\<open>!v\<close>.\<close>

fun truthy :: "jsval \<Rightarrow> bool" where
  "truthy JUndefined = False"
| "truthy JNull = False"
| "truthy (JBool b) = b"
| "truthy (JNum n) = (n \<noteq> 0)"
| "truthy (JStr s) = (s \<noteq> [])"
| "truthy (JArr xs) = True"
| "truthy (JObj kvs) = True"

text \<open>\<^verbatim>\<open>typeof v === 'string'\<close>.\<close>

fun typeof_string :: "jsval \<Rightarrow> bool" where
  "typeof_string (JStr s) = True"
| "typeof_string v = False"

text \<open>
  A value of type \<^verbatim>\<open>string | undefined\<close> is a \<open>string option\<close>, \<open>None\<close> being
  \<^verbatim>\<open>undefined\<close>.  It is falsy when it is \<^verbatim>\<open>undefined\<close> or the empty string.
\<close>

definition falsy :: "string option \<Rightarrow> bool" where
  "falsy s = (case s of None \<Rightarrow> True | Some t \<Rightarrow> t = [])"

text \<open>The outcome of a call that may throw.\<close>

datatype 'a attempt = Threw | Returned 'a

section \<open>Connection Identity Resolver\<close>

record connection =
  connection_id :: string

record invocation =
  invocation_connection :: "connection option"

text \<open>
  The ambient context of a call: what \<^verbatim>\<open>DDP._CurrentInvocation.get()\<close> does when it is
  evaluated (it throws, or returns the current invocation, or \<^verbatim>\<open>undefined\<close>), and the
  store of the \<^verbatim>\<open>_publishConnectionId\<close> environment variable, which
  \<^verbatim>\<open>EnvironmentVariable.get\<close> returns as it is.
\<close>

record ambient =
  currentInvocation :: "invocation option attempt"
  publishConnectionId :: "string option"

text \<open>
  \<^verbatim>\<open>_getConnectionId\<close>: \<open>connectionId\<close> starts as \<^verbatim>\<open>connection?.id\<close>; the assignment inside
  \<^verbatim>\<open>try\<close> replaces it whenever reading the ambient invocation does not throw.
\<close>

definition getConnectionId :: "ambient \<Rightarrow> connection option \<Rightarrow> string option" where
  "getConnectionId amb conn =
     (let connectionId = map_option connection_id conn
      in case currentInvocation amb of
           Threw \<Rightarrow> connectionId
         | Returned current \<Rightarrow>
             (case Option.bind current invocation_connection of
                Some c \<Rightarrow> Some (connection_id c)
              | None \<Rightarrow> publishConnectionId amb))"

section \<open>Connection Locale Registry\<close>

text \<open>
  \<^verbatim>\<open>_localesPerConnections\<close> is a \<^verbatim>\<open>Record<string, string>\<close>, modelled by its own
  properties: a key is absent, or it holds a value.  The value is a
  \<^verbatim>\<open>string | undefined\<close>, because \<^verbatim>\<open>setLocaleOnConnection\<close> stores the result of
  \<^verbatim>\<open>normalize\<close> behind a non-null assertion.  Keys that name members of
  \<^verbatim>\<open>Object.prototype\<close> are outside the model.
\<close>

type_synonym registry = "string \<rightharpoonup> string option"

text \<open>A property key: \<^verbatim>\<open>undefined\<close> used as a key is the string \<^verbatim>\<open>"undefined"\<close>.\<close>

definition key_of :: "string option \<Rightarrow> string" where
  "key_of k = (case k of None \<Rightarrow> ''undefined'' | Some s \<Rightarrow> s)"

text \<open>The read \<^verbatim>\<open>_localesPerConnections[k]\<close>: \<^verbatim>\<open>undefined\<close> for an absent key.\<close>

definition localesPerConnections_at :: "registry \<Rightarrow> string \<Rightarrow> string option" where
  "localesPerConnections_at reg k = (case reg k of None \<Rightarrow> None | Some v \<Rightarrow> v)"

definition getConnectionLocale ::
  "ambient \<Rightarrow> connection option \<Rightarrow> registry \<Rightarrow> string option" where
  "getConnectionLocale amb conn reg =
     localesPerConnections_at reg (key_of (getConnectionId amb conn))"

text \<open>\<^verbatim>\<open>Meteor.onConnection\<close> and the \<^verbatim>\<open>onClose\<close> callback it registers.\<close>

definition onConnection :: "string \<Rightarrow> registry \<Rightarrow> registry" where
  "onConnection c reg = reg(c \<mapsto> Some [])"

definition onClose :: "string \<Rightarrow> registry \<Rightarrow> registry" where
  "onClose c reg = reg(c := None)"

datatype error = NoSuchConnection "string option"

text \<open>
  \<^verbatim>\<open>setLocaleOnConnection(locale, connectionId = i18n._getConnectionId())\<close>: the default
  is taken when the argument is \<^verbatim>\<open>undefined\<close>.  \<open>norm\<close> is \<^verbatim>\<open>i18n.normalize\<close>, which
  returns \<^verbatim>\<open>undefined\<close> for a locale it does not recognise.
\<close>

definition setLocaleOnConnection ::
  "(string \<Rightarrow> string option) \<Rightarrow> ambient \<Rightarrow> string \<Rightarrow> string option \<Rightarrow> registry
     \<Rightarrow> error + registry" where
  "setLocaleOnConnection norm amb locale connectionIdArg reg =
     (let connectionId =
            (case connectionIdArg of None \<Rightarrow> getConnectionId amb None | Some c \<Rightarrow> Some c)
      in case localesPerConnections_at reg (key_of connectionId) of
           Some s \<Rightarrow> Inr (reg(key_of connectionId \<mapsto> norm locale))
         | None \<Rightarrow> Inl (NoSuchConnection connectionId))"

text \<open>
  The method \<^verbatim>\<open>universe.i18n.setServerLocaleForConnection\<close>.  \<^verbatim>\<open>check(locale, Match.Any)\<close>
  accepts every value.  \<open>this_connection\<close> is \<^verbatim>\<open>this.connection\<close>, \<open>flag\<close> is
  \<^verbatim>\<open>i18n.options.sameLocaleOnServerConnection\<close>.
\<close>

text \<open>The string held by a value whose \<^verbatim>\<open>typeof\<close> is \<^verbatim>\<open>'string'\<close>.\<close>

fun string_of :: "jsval \<Rightarrow> string" where
  "string_of (JStr s) = s"
| "string_of v = []"

definition setServerLocaleForConnection ::
  "(string \<Rightarrow> string option) \<Rightarrow> bool \<Rightarrow> ambient \<Rightarrow> connection option \<Rightarrow> jsval \<Rightarrow> registry
     \<Rightarrow> error + registry" where
  "setServerLocaleForConnection norm flag amb this_connection locale reg =
     (if \<not> typeof_string locale \<or> \<not> flag then Inr reg
      else
        (let connectionId = getConnectionId amb this_connection
         in if falsy connectionId then Inr reg
            else setLocaleOnConnection norm amb (string_of locale) connectionId reg))"

section \<open>Locale Cache\<close>

text \<open>
  A code generator (\<^verbatim>\<open>getJS\<close>, \<^verbatim>\<open>getJSON\<close>, \<^verbatim>\<open>getYML\<close> of \<^verbatim>\<open>./code-generators\<close>) takes the
  locale, the namespace and a third argument (\<^verbatim>\<open>diff\<close> or \<^verbatim>\<open>preload\<close>) and returns the
  payload.  The three are parameters of the model.
\<close>

type_synonym formatter = "string \<Rightarrow> jsval \<Rightarrow> jsval \<Rightarrow> string"

record generators =
  genJS :: formatter
  genJSON :: formatter
  genYML :: formatter

record GetCacheEntry =
  updatedAt :: string
  getYML :: formatter
  getJSON :: formatter
  getJS :: formatter

text \<open>
  \<^verbatim>\<open>cache\<close> is a \<^verbatim>\<open>Record<string, GetCacheEntry>\<close> created as \<^verbatim>\<open>{}\<close>.  Its own
  properties are a map from locales to entries.  As every object literal it inherits
  the members of \<^verbatim>\<open>Object.prototype\<close>: the read \<^verbatim>\<open>cache[l]\<close> of a key without own entry
  that names one of them gives that member, a function or object that has no
  \<^verbatim>\<open>updatedAt\<close>.
\<close>

type_synonym cache = "string \<rightharpoonup> GetCacheEntry"

definition Object_prototype_keys :: "string list" where
  "Object_prototype_keys =
     [''constructor'', ''__defineGetter__'', ''__defineSetter__'', ''hasOwnProperty'',
      ''__lookupGetter__'', ''__lookupSetter__'', ''isPrototypeOf'', ''propertyIsEnumerable'',
      ''toString'', ''valueOf'', ''__proto__'', ''toLocaleString'']"

text \<open>
  What \<^verbatim>\<open>getCache\<close> can return: the whole cache, an entry, or the member of
  \<^verbatim>\<open>Object.prototype\<close> of the given name.
\<close>

datatype getCache_result = Whole cache | Entry GetCacheEntry | Inherited string

text \<open>The read \<^verbatim>\<open>cache[l]\<close>; \<open>None\<close> is \<^verbatim>\<open>undefined\<close>.\<close>

definition cache_at :: "cache \<Rightarrow> string \<Rightarrow> getCache_result option" where
  "cache_at cache l =
     (case cache l of
        Some e \<Rightarrow> Some (Entry e)
      | None \<Rightarrow> if l \<in> set Object_prototype_keys then Some (Inherited l) else None)"

text \<open>
  \<^verbatim>\<open>getCache\<close>.  \<open>now\<close> is what \<^verbatim>\<open>new Date().toUTCString()\<close> returns at the call.  The
  result is paired with the cache after the call.  The entry is created when the read
  \<^verbatim>\<open>cache[locale]\<close> is \<^verbatim>\<open>undefined\<close>; an entry and an inherited member are both
  truthy and are returned as they are.
\<close>

definition getCache ::
  "generators \<Rightarrow> string \<Rightarrow> string option \<Rightarrow> cache \<Rightarrow> getCache_result \<times> cache" where
  "getCache gens now locale cache =
     (if falsy locale then (Whole cache, cache)
      else
        (let l = key_of locale
         in case cache_at cache l of
              None \<Rightarrow>
                (let e = \<lparr>updatedAt = now, getYML = genYML gens,
                          getJSON = genJSON gens, getJS = genJS gens\<rparr>
                 in (Entry e, cache(l \<mapsto> e)))
            | Some v \<Rightarrow> (v, cache)))"

text \<open>The statement \<^verbatim>\<open>delete cache[normalizedLocale]\<close> of \<^verbatim>\<open>loadLocale\<close>.\<close>

definition invalidate :: "string \<Rightarrow> cache \<Rightarrow> cache" where
  "invalidate l cache = cache(l := None)"

section \<open>Remote Locale Loader\<close>

text \<open>
  The collaborators \<^verbatim>\<open>loadLocale\<close> calls, as parameters: \<^verbatim>\<open>i18n.normalize\<close>,
  \<^verbatim>\<open>resolve\<close> of \<^verbatim>\<open>url\<close>, the \<^verbatim>\<open>fetch\<close> of a URL followed by \<^verbatim>\<open>data.json()\<close>,
  \<^verbatim>\<open>JSON.parse(stripJsonComments(content))\<close> on a string, whether
  \<^verbatim>\<open>i18n.addTranslations\<close> throws, and \<^verbatim>\<open>i18n.getLocale()\<close>.
\<close>

record externals =
  normalizeLocale :: "string \<Rightarrow> string option"
  resolveUrl :: "string \<Rightarrow> string \<Rightarrow> string"
  fetchJson :: "string \<Rightarrow> jsval attempt"
  parseStripped :: "string \<Rightarrow> jsval attempt"
  addTranslationsThrows :: "string \<Rightarrow> jsval \<Rightarrow> bool"
  currentLocale :: string

record options =
  hostUrl :: string
  pathOnHost :: string
  defaultLocale :: string
  sameLocaleOnServerConnection :: bool
  translationsHeaders :: "string \<rightharpoonup> string"

text \<open>The second argument of \<^verbatim>\<open>loadLocale\<close>; \<open>None\<close> is a property left out.\<close>

record LoadLocaleOptions =
  fresh :: "bool option"
  host :: "string option"
  pathOnHostArg :: "string option"
  queryParams :: "(string \<rightharpoonup> jsval) option"
  silent :: "bool option"

text \<open>What \<^verbatim>\<open>loadLocale\<close> does to the world besides the cache, in order.\<close>

datatype effect =
    LoggerError string
  | ConsoleError
  | MissingContent
  | HttpGet string
  | AddTranslations string jsval
  | EmitChange

text \<open>
  Lines 89 to 97: the query parameters after the two assignments, and the URL.  The
  concatenation reads \<^verbatim>\<open>queryParams.type\<close>, which line 89 has just set to
  \<^verbatim>\<open>'json'\<close>.  \<open>millis\<close> is \<^verbatim>\<open>new Date().getTime()\<close>.
\<close>

definition loadLocale_request ::
  "(string \<Rightarrow> string \<Rightarrow> string) \<Rightarrow> int \<Rightarrow> bool \<Rightarrow> string \<Rightarrow> string \<Rightarrow> (string \<rightharpoonup> jsval)
     \<Rightarrow> string \<Rightarrow> string \<times> (string \<rightharpoonup> jsval)" where
  "loadLocale_request res millis fr hst path qp normalizedLocale =
     (let qp1 = qp(''type'' \<mapsto> JStr ''json'');
          qp2 = (if fr then qp1(''ts'' \<mapsto> JNum millis) else qp1);
          url = res hst (path @ normalizedLocale @ ''?type='' @ ''json'')
      in (url, qp2))"

text \<open>\<^verbatim>\<open>const { content } = json || {}\<close>.\<close>

fun content_of :: "jsval \<Rightarrow> jsval" where
  "content_of (JObj kvs) = (case map_of kvs ''content'' of None \<Rightarrow> JUndefined | Some v \<Rightarrow> v)"
| "content_of v = JUndefined"

text \<open>\<^verbatim>\<open>s.indexOf(p) === 0\<close>.\<close>

definition indexOf_is_0 :: "string \<Rightarrow> string \<Rightarrow> bool" where
  "indexOf_is_0 s p = (take (length p) s = p)"

text \<open>
  \<^verbatim>\<open>loadLocale\<close>, run without interleaving.  Every path resolves with
  \<^verbatim>\<open>undefined\<close>, so the result is the list of effects and the cache afterwards.
  \<^verbatim>\<open>stripJsonComments\<close> throws on a content that is not a string.
\<close>

definition loadLocale ::
  "externals \<Rightarrow> options \<Rightarrow> int \<Rightarrow> string \<Rightarrow> LoadLocaleOptions \<Rightarrow> cache
     \<Rightarrow> effect list \<times> cache" where
  "loadLocale ext opts millis locale lo cache =
     (let fr = (case fresh lo of None \<Rightarrow> False | Some b \<Rightarrow> b);
          hst = (case host lo of None \<Rightarrow> hostUrl opts | Some h \<Rightarrow> h);
          path = (case pathOnHostArg lo of None \<Rightarrow> pathOnHost opts | Some p \<Rightarrow> p);
          qp = (case queryParams lo of None \<Rightarrow> Map.empty | Some q \<Rightarrow> q);
          sil = (case silent lo of None \<Rightarrow> False | Some b \<Rightarrow> b);
          normalizedLocale = normalizeLocale ext locale
      in if falsy normalizedLocale
         then ([LoggerError (''Unrecognized locale '' @ [CHR 0x22] @ locale @ [CHR 0x22])], cache)
         else
           (let nl = key_of normalizedLocale;
                url = fst (loadLocale_request (resolveUrl ext) millis fr hst path qp nl)
            in case fetchJson ext url of
                 Threw \<Rightarrow> ([HttpGet url, ConsoleError], cache)
               | Returned json \<Rightarrow>
                   (let content = content_of json
                    in if truthy content then
                         (if \<not> typeof_string content then ([HttpGet url, ConsoleError], cache)
                          else
                            (case parseStripped ext (string_of content) of
                               Threw \<Rightarrow> ([HttpGet url, ConsoleError], cache)
                             | Returned tr \<Rightarrow>
                                 if addTranslationsThrows ext nl tr
                                 then ([HttpGet url, ConsoleError], cache)
                                 else
                                   ([HttpGet url, AddTranslations nl tr] @
                                    (if \<not> sil \<and>
                                        (indexOf_is_0 (currentLocale ext) nl \<or>
                                         indexOf_is_0 (defaultLocale opts) nl)
                                     then [EmitChange] else []),
                                    invalidate nl cache)))
                       else ([HttpGet url, MissingContent], cache))))"

section \<open>Delivery Endpoint\<close>

text \<open>
  The handler sees the request as \<^verbatim>\<open>parse(request.url || '', true)\<close> returns it: a
  \<^verbatim>\<open>pathname\<close> (with the route prefix already removed by \<^verbatim>\<open>connect\<close>), or none, and
  a \<^verbatim>\<open>query\<close> object whose values are strings or, for a repeated parameter, arrays
  of strings.
\<close>

datatype qval = QStr string | QArr "string list"

record request =
  pathname :: "string option"
  query :: "string \<rightharpoonup> qval"

definition q_truthy :: "qval option \<Rightarrow> bool" where
  "q_truthy v = (case v of None \<Rightarrow> False | Some (QStr s) \<Rightarrow> s \<noteq> [] | Some (QArr xs) \<Rightarrow> True)"

text \<open>\<^verbatim>\<open>['js', 'json', 'yml'].includes(type)\<close>: strict equality, so no array is included.\<close>

definition includes_type :: "qval option \<Rightarrow> bool" where
  "includes_type v =
     (case v of Some (QStr s) \<Rightarrow> s \<in> set [''js'', ''json'', ''yml''] | _ \<Rightarrow> False)"

text \<open>A query value as a code generator receives it, \<open>d\<close> being the destructuring default.\<close>

definition js_of :: "qval option \<Rightarrow> jsval \<Rightarrow> jsval" where
  "js_of v d =
     (case v of None \<Rightarrow> d | Some (QStr s) \<Rightarrow> JStr s | Some (QArr xs) \<Rightarrow> JArr (map JStr xs))"

fun join_comma :: "string list \<Rightarrow> string" where
  "join_comma [] = []"
| "join_comma [x] = x"
| "join_comma (x # y # ys) = x @ '','' @ join_comma (y # ys)"

text \<open>\<^verbatim>\<open>type || 'js'\<close> inside the template literal.\<close>

definition type_or_js :: "qval option \<Rightarrow> string" where
  "type_or_js v =
     (case v of
        None \<Rightarrow> ''js''
      | Some (QStr s) \<Rightarrow> if s = [] then ''js'' else s
      | Some (QArr xs) \<Rightarrow> join_comma xs)"

text \<open>
  The pattern \<^verbatim>\<open>/^\/?([a-z]{2}[a-z0-9\-_]*)/i\<close> and its first group: an optional slash,
  two letters, then the longest run of letters, digits, hyphens and underscores.
\<close>

definition is_letter :: "char \<Rightarrow> bool" where
  "is_letter c = (c \<in> set ''abcdefghijklmnopqrstuvwxyzABCDEFGHIJKLMNOPQRSTUVWXYZ'')"

definition is_locale_char :: "char \<Rightarrow> bool" where
  "is_locale_char c = (is_letter c \<or> c \<in> set ''0123456789-_'')"

definition match_locale :: "string \<Rightarrow> string option" where
  "match_locale p =
     (case (case p of [] \<Rightarrow> p | c # r \<Rightarrow> if c = CHR ''/'' then r else p) of
        a # b # rest \<Rightarrow>
          if is_letter a \<and> is_letter b then Some (a # b # takeWhile is_locale_char rest)
          else None
      | _ \<Rightarrow> None)"

text \<open>
  What the handler does with the request: it calls \<^verbatim>\<open>next()\<close>, or it writes a status,
  headers and a body (\<open>None\<close> for \<^verbatim>\<open>response.end()\<close> without argument), or it throws.
\<close>

datatype outcome =
    Next
  | Response nat "string \<rightharpoonup> string" "string option"
  | TypeError

definition attachment_header :: "string \<Rightarrow> qval option \<Rightarrow> string" where
  "attachment_header locale ty =
     ''attachment; filename='' @ [CHR 0x22] @ locale @ ''.i18n.'' @ type_or_js ty @ [CHR 0x22]"

text \<open>
  The handler registered under \<^verbatim>\<open>/universe/locale/\<close>, paired with the cache after the
  request.  \<^verbatim>\<open>getCache\<close> returns the whole cache only for a falsy locale, which the
  guard before the call excludes; reading \<^verbatim>\<open>updatedAt\<close> from the whole cache is the
  read of that key.  An inherited member has no \<^verbatim>\<open>updatedAt\<close>, so the guard
  \<^verbatim>\<open>!cache?.updatedAt\<close> answers it with 501.
\<close>

definition locale_handler ::
  "options \<Rightarrow> generators \<Rightarrow> string \<Rightarrow> request \<Rightarrow> cache \<Rightarrow> outcome \<times> cache" where
  "locale_handler opts gens now req cache =
     (let attachment = query req ''attachment'';
          diff = js_of (query req ''diff'') (JBool False);
          namespace = js_of (query req ''namespace'') JUndefined;
          preload = js_of (query req ''preload'') (JBool False);
          ty = query req ''type''
      in if q_truthy ty \<and> \<not> includes_type ty then (Response 415 Map.empty None, cache)
         else
           (let locale = Option.bind (pathname req) match_locale
            in if falsy locale then (Next, cache)
               else
                 (case getCache gens now locale cache of
                    (Whole m, cache') \<Rightarrow>
                      (case m ''updatedAt'' of
                         None \<Rightarrow> (Response 501 Map.empty None, cache')
                       | Some x \<Rightarrow> (TypeError, cache'))
                  | (Inherited k, cache') \<Rightarrow> (Response 501 Map.empty None, cache')
                  | (Entry e, cache') \<Rightarrow>
                      if updatedAt e = [] then (Response 501 Map.empty None, cache')
                      else
                        (let headers = (translationsHeaders opts)(''Last-Modified'' \<mapsto> updatedAt e);
                             headers' =
                               (if q_truthy attachment
                                then headers(''Content-Disposition'' \<mapsto>
                                       attachment_header (key_of locale) ty)
                                else headers)
                         in if ty = Some (QStr ''json'') then
                              (Response 200
                                 ([''Content-Type'' \<mapsto> ''application/json; charset=utf-8''] ++ headers')
                                 (Some (getJSON e (key_of locale) namespace diff)),
                               cache')
                            else if ty = Some (QStr ''yml'') then
                              (Response 200
                                 ([''Content-Type'' \<mapsto> ''text/yaml; charset=utf-8''] ++ headers')
                                 (Some (getYML e (key_of locale) namespace diff)),
                               cache')
                            else
                              (Response 200
                                 ([''Content-Type'' \<mapsto> ''application/javascript; charset=utf-8'']
                                    ++ headers')
                                 (Some (getJS e (key_of locale) namespace preload)),
                               cache')))))"

definition status_of :: "outcome \<Rightarrow> nat option" where
  "status_of out = (case out of Response st hs b \<Rightarrow> Some st | _ \<Rightarrow> None)"

section \<open>Sequences of calls\<close>




section \<open>Concrete collaborators\<close>

text \<open>
  Code generators, options, a normalisation that recognises \<^verbatim>\<open>en\<close> and \<^verbatim>\<open>fr\<close>, and an
  ambient context inside a method invocation of connection \<open>c\<close>, for evaluating the
  model on concrete requests.
\<close>

definition example_generators :: generators where
  "example_generators =
     \<lparr>genJS = (\<lambda>l n p. ''js:'' @ l), genJSON = (\<lambda>l n d. ''json:'' @ l),
      genYML = (\<lambda>l n d. ''yml:'' @ l)\<rparr>"

definition example_options :: options where
  "example_options =
     \<lparr>hostUrl = ''http://localhost:3000/'', pathOnHost = ''universe/locale/'',
      defaultLocale = ''en'', sameLocaleOnServerConnection = True,
      translationsHeaders = Map.empty\<rparr>"

definition example_normalize :: "string \<Rightarrow> string option" where
  "example_normalize l = (if l \<in> set [''en'', ''fr''] then Some l else None)"

definition example_externals :: externals where
  "example_externals =
     \<lparr>normalizeLocale = example_normalize, resolveUrl = (\<lambda>h r. h @ r),
      fetchJson = (\<lambda>u. Returned (JObj [(''content'', JStr ''{}'')])),
      parseStripped = (\<lambda>s. Returned (JObj [])),
      addTranslationsThrows = (\<lambda>l t. False), currentLocale = ''en-US''\<rparr>"

definition example_ambient :: "string \<Rightarrow> ambient" where
  "example_ambient c =
     \<lparr>currentInvocation =
        Returned (Some \<lparr>invocation_connection = Some \<lparr>connection_id = c\<rparr>\<rparr>),
      publishConnectionId = None\<rparr>"

section \<open>Connection Identity Resolver: properties\<close>

text \<open>
  Claim C2 states that an explicit connection argument decides the result.  It does not:
  with an explicit connection \<^verbatim>\<open>a\<close> and no ambient context at all the resolver
  returns no connection, and inside an invocation of connection \<^verbatim>\<open>b\<close> it returns
  \<^verbatim>\<open>b\<close>.
\<close>

theorem getConnectionId_explicit_counterexample:
  "getConnectionId \<lparr>currentInvocation = Returned None, publishConnectionId = None\<rparr>
       (Some \<lparr>connection_id = ''a''\<rparr>) \<noteq> Some ''a''
   \<and> getConnectionId (example_ambient ''b'') (Some \<lparr>connection_id = ''a''\<rparr>) = Some ''b''"
  by (simp add: getConnectionId_def example_ambient_def)

text \<open>
  Claim C2, amended: the explicit connection's id is returned when reading the ambient
  invocation throws; when the ambient invocation carries a connection, the id of that
  connection is returned, also when an explicit connection is given; when no explicit
  connection is given and reading the ambient invocation does not throw, the result is
  the connection id of the ambient invocation if there is one and the publish-context
  value otherwise; it is no connection when none of the three is available.
\<close>

theorem getConnectionId_order:
  "(currentInvocation amb = Threw \<longrightarrow>
      getConnectionId amb conn = map_option connection_id conn) \<and>
   (currentInvocation amb = Returned (Some inv') \<and> invocation_connection inv' = Some c \<longrightarrow>
      getConnectionId amb conn = Some (connection_id c)) \<and>
   (conn = None \<and> currentInvocation amb = Returned current \<and>
    Option.bind current invocation_connection = None \<longrightarrow>
      getConnectionId amb conn = publishConnectionId amb) \<and>
   (conn = None \<and> publishConnectionId amb = None \<and>
    (\<forall>current.
       currentInvocation amb = Returned current \<longrightarrow>
       Option.bind current invocation_connection = None) \<longrightarrow>
      getConnectionId amb conn = None)"
  by (cases "currentInvocation amb") (simp_all add: getConnectionId_def)

theorem getConnectionId_order_witness:
  "getConnectionId \<lparr>currentInvocation = Threw, publishConnectionId = Some ''p''\<rparr>
      (Some \<lparr>connection_id = ''a''\<rparr>) = Some ''a'' \<and>
   getConnectionId (example_ambient ''b'') (Some \<lparr>connection_id = ''a''\<rparr>) = Some ''b'' \<and>
   getConnectionId \<lparr>currentInvocation = Returned None, publishConnectionId = Some ''p''\<rparr>
      None = Some ''p'' \<and>
   getConnectionId \<lparr>currentInvocation = Returned None, publishConnectionId = None\<rparr> None = None"
  using
    getConnectionId_order [where amb = "\<lparr>currentInvocation = Threw, publishConnectionId = Some ''p''\<rparr>"
      and conn = "Some \<lparr>connection_id = ''a''\<rparr>"]
    getConnectionId_order [where amb = "example_ambient ''b''"
      and conn = "Some \<lparr>connection_id = ''a''\<rparr>"
      and inv' = "\<lparr>invocation_connection = Some \<lparr>connection_id = ''b''\<rparr>\<rparr>"
      and c = "\<lparr>connection_id = ''b''\<rparr>"]
    getConnectionId_order [where amb = "\<lparr>currentInvocation = Returned None, publishConnectionId = Some ''p''\<rparr>"
      and conn = None and current = None]
    getConnectionId_order [where amb = "\<lparr>currentInvocation = Returned None, publishConnectionId = None\<rparr>"
      and conn = None]
  by (simp add: example_ambient_def)

section \<open>Connection Locale Registry: properties\<close>

text \<open>
  Claim C4: for every connection id \<open>c\<close>, the registry read at \<open>c\<close> after
  \<^verbatim>\<open>onConnection\<close> is the empty string, and after the close callback the entry is gone
  and the read is \<^verbatim>\<open>undefined\<close>; the same holds for \<^verbatim>\<open>_getConnectionLocale\<close> in every
  context that resolves to \<open>c\<close>.
\<close>

theorem onConnection_onClose_locale:
  "localesPerConnections_at (onConnection c reg) c = Some [] \<and>
   (onClose c reg) c = None \<and>
   localesPerConnections_at (onClose c reg) c = None \<and>
   (getConnectionId amb conn = Some c \<longrightarrow>
      getConnectionLocale amb conn (onConnection c reg) = Some [] \<and>
      getConnectionLocale amb conn (onClose c reg) = None)"
  by (simp add: localesPerConnections_at_def onConnection_def onClose_def
      getConnectionLocale_def key_of_def)

theorem onConnection_onClose_locale_witness:
  "getConnectionId (example_ambient ''c1'') None = Some ''c1'' \<and>
   getConnectionLocale (example_ambient ''c1'') None (onConnection ''c1'' Map.empty) = Some [] \<and>
   getConnectionLocale (example_ambient ''c1'') None
     (onClose ''c1'' (onConnection ''c1'' Map.empty)) = None"
proof -
  have h: "getConnectionId (example_ambient ''c1'') None = Some ''c1''"
    by (simp add: getConnectionId_def example_ambient_def)
  from onConnection_onClose_locale [of "''c1''" Map.empty "example_ambient ''c1''" None]
    onConnection_onClose_locale [of "''c1''" "onConnection ''c1'' Map.empty"
      "example_ambient ''c1''" None] h
  show ?thesis by blast
qed

text \<open>
  Claim C5 fails on a connection that is open: after \<^verbatim>\<open>setLocaleOnConnection\<close> with a
  locale that \<^verbatim>\<open>normalize\<close> does not recognise, the entry of \<^verbatim>\<open>c1\<close> is still there and
  holds \<^verbatim>\<open>undefined\<close>, and the next call, with a recognised locale, throws.
\<close>

theorem setLocaleOnConnection_throws_for_open_connection:
  "(case setLocaleOnConnection example_normalize (example_ambient ''c1'') ''zz'' (Some ''c1'')
           (onConnection ''c1'' Map.empty) of
      Inl e \<Rightarrow> False
    | Inr reg1 \<Rightarrow>
        reg1 ''c1'' = Some None \<and>
        setLocaleOnConnection example_normalize (example_ambient ''c1'') ''en'' (Some ''c1'') reg1
          = Inl (NoSuchConnection (Some ''c1'')))"
  by (simp add: setLocaleOnConnection_def onConnection_def localesPerConnections_at_def
      key_of_def example_normalize_def)

text \<open>
  Claim C9: when \<^verbatim>\<open>setLocaleOnConnection\<close> is called for an open connection \<open>c\<close> (its
  entry holds a string) with a locale that \<^verbatim>\<open>normalize\<close> maps to \<^verbatim>\<open>undefined\<close>, the
  call returns normally and the entry of \<open>c\<close> holds \<^verbatim>\<open>undefined\<close>; from then on the
  locale of \<open>c\<close> reads as \<^verbatim>\<open>undefined\<close> and every \<^verbatim>\<open>setLocaleOnConnection\<close> for \<open>c\<close>
  throws.
\<close>

theorem setLocaleOnConnection_unrecognized_locale:
  assumes "localesPerConnections_at reg c = Some s" and "norm L = None"
  shows "\<exists>reg'. setLocaleOnConnection norm amb L (Some c) reg = Inr reg' \<and>
           reg' c = Some None \<and>
           localesPerConnections_at reg' c = None \<and>
           (getConnectionId amb' conn = Some c \<longrightarrow> getConnectionLocale amb' conn reg' = None) \<and>
           (\<forall>norm' amb'' L'.
              setLocaleOnConnection norm' amb'' L' (Some c) reg' = Inl (NoSuchConnection (Some c)))"
  using assms
  by (simp add: setLocaleOnConnection_def key_of_def localesPerConnections_at_def
      getConnectionLocale_def)

theorem setLocaleOnConnection_unrecognized_locale_witness:
  "localesPerConnections_at (onConnection ''c1'' Map.empty) ''c1'' = Some [] \<and>
   example_normalize ''zz'' = None \<and>
   (\<exists>reg'. setLocaleOnConnection example_normalize (example_ambient ''c1'') ''zz'' (Some ''c1'')
              (onConnection ''c1'' Map.empty) = Inr reg' \<and>
            localesPerConnections_at reg' ''c1'' = None \<and>
            setLocaleOnConnection example_normalize (example_ambient ''c1'') ''fr'' (Some ''c1'') reg'
              = Inl (NoSuchConnection (Some ''c1'')))"
proof -
  have h1: "localesPerConnections_at (onConnection ''c1'' Map.empty) ''c1'' = Some []"
    by (simp add: localesPerConnections_at_def onConnection_def)
  have h2: "example_normalize ''zz'' = None"
    by (simp add: example_normalize_def)
  from setLocaleOnConnection_unrecognized_locale [where norm = example_normalize
      and L = "''zz''" and amb = "example_ambient ''c1''", OF h1 h2] h1 h2
  show ?thesis by blast
qed

text \<open>
  Claim C8: for a connection \<open>c\<close> whose registry locale is \<^verbatim>\<open>fr\<close>, the method
  \<^verbatim>\<open>universe.i18n.setServerLocaleForConnection\<close> called with an argument that is not a
  string returns normally and leaves the registry as it was, so the locale of \<open>c\<close> is
  still \<^verbatim>\<open>fr\<close>.
\<close>

theorem setServerLocaleForConnection_non_string_noop:
  assumes "\<not> typeof_string v" and "localesPerConnections_at reg c = Some ''fr''"
  shows "setServerLocaleForConnection norm flag amb this_connection v reg = Inr reg \<and>
         (\<forall>reg'. setServerLocaleForConnection norm flag amb this_connection v reg = Inr reg' \<longrightarrow>
            localesPerConnections_at reg' c = Some ''fr'')"
  using assms by (simp add: setServerLocaleForConnection_def)

theorem setServerLocaleForConnection_non_string_noop_witness:
  "\<not> typeof_string (JNum 42) \<and>
   setLocaleOnConnection example_normalize (example_ambient ''c1'') ''fr'' (Some ''c1'')
     (onConnection ''c1'' Map.empty) = Inr [''c1'' \<mapsto> Some ''fr''] \<and>
   localesPerConnections_at [''c1'' \<mapsto> Some ''fr''] ''c1'' = Some ''fr'' \<and>
   setServerLocaleForConnection example_normalize True (example_ambient ''c1'')
     (Some \<lparr>connection_id = ''c1''\<rparr>) (JNum 42) [''c1'' \<mapsto> Some ''fr'']
     = Inr [''c1'' \<mapsto> Some ''fr'']"
proof -
  have h1: "\<not> typeof_string (JNum 42)" by simp
  have h2: "localesPerConnections_at [''c1'' \<mapsto> Some ''fr''] ''c1'' = Some ''fr''"
    by (simp add: localesPerConnections_at_def)
  have h3: "setLocaleOnConnection example_normalize (example_ambient ''c1'') ''fr'' (Some ''c1'')
     (onConnection ''c1'' Map.empty) = Inr [''c1'' \<mapsto> Some ''fr'']"
    by (simp add: setLocaleOnConnection_def onConnection_def localesPerConnections_at_def
        key_of_def example_normalize_def)
  from setServerLocaleForConnection_non_string_noop [OF h1 h2] h1 h2 h3
  show ?thesis by blast
qed

section \<open>Locale Cache: properties\<close>

text \<open>
  For a non-empty locale \<open>L\<close> that has no entry and names no member of
  \<^verbatim>\<open>Object.prototype\<close>: \<^verbatim>\<open>getCache(L)\<close> at time \<open>t1\<close> creates an entry stamped \<open>t1\<close>; a
  second \<^verbatim>\<open>getCache(L)\<close>, at any time \<open>t2\<close>, returns that same entry and leaves the
  cache as it is; after the entry is deleted, as \<^verbatim>\<open>loadLocale\<close> does, \<^verbatim>\<open>getCache(L)\<close> at
  time \<open>t3\<close> returns an entry with the new stamp \<open>t3\<close>.
\<close>

lemma getCache_create_keep_recreate:
  assumes "L \<noteq> []" and "L \<notin> set Object_prototype_keys" and "cache L = None"
  shows "\<exists>e1 c1. getCache gens t1 (Some L) cache = (Entry e1, c1) \<and>
           updatedAt e1 = t1 \<and> c1 L = Some e1 \<and>
           getCache gens t2 (Some L) c1 = (Entry e1, c1) \<and>
           (invalidate L c1) L = None \<and>
           (\<exists>e3 c3. getCache gens t3 (Some L) (invalidate L c1) = (Entry e3, c3) \<and>
              updatedAt e3 = t3 \<and> c3 L = Some e3)"
  using assms
  by (simp add: getCache_def cache_at_def falsy_def key_of_def invalidate_def Let_def)


text \<open>
  Claim C6 fails on the code for a locale that names a member of \<^verbatim>\<open>Object.prototype\<close>:
  on a fresh cache the first \<^verbatim>\<open>getCache('constructor')\<close> finds the inherited member,
  creates no entry and returns a value without timestamp.  The request
  \<^verbatim>\<open>GET /constructor\<close> reaches that call and is answered with 501.
\<close>

theorem getCache_constructor_creates_no_entry:
  "getCache example_generators ''Tue, 03 Nov 2026 06:36:00 GMT'' (Some ''constructor'') Map.empty
     = (Inherited ''constructor'', Map.empty) \<and>
   match_locale ''/constructor'' = Some ''constructor'' \<and>
   locale_handler example_options example_generators ''Tue, 03 Nov 2026 06:36:00 GMT''
       \<lparr>pathname = Some ''/constructor'', query = Map.empty\<rparr> Map.empty
     = (Response 501 Map.empty None, Map.empty)"
  by (simp add: getCache_def cache_at_def Object_prototype_keys_def falsy_def key_of_def
      locale_handler_def match_locale_def is_letter_def is_locale_char_def q_truthy_def)

section \<open>Remote Locale Loader: properties\<close>

text \<open>
  The URL of the request does not depend on \<^verbatim>\<open>fresh\<close> or on the time; the timestamp
  only reaches the \<^verbatim>\<open>queryParams\<close> object.
\<close>

lemma loadLocale_request_url:
  "fst (loadLocale_request res millis fr hst path qp nl) = res hst (path @ nl @ ''?type=json'')"
  by (simp add: loadLocale_request_def Let_def)

lemma loadLocale_request_ts:
  "snd (loadLocale_request res millis fr hst path qp nl) ''ts'' =
     (if fr then Some (JNum millis) else qp ''ts'')"
  by (simp add: loadLocale_request_def Let_def)

text \<open>
  A load that merges new translations deletes the cache entry of the normalised locale,
  and only that entry.
\<close>

lemma loadLocale_success_invalidates:
  assumes "normalizeLocale ext locale = Some nl" and "nl \<noteq> []"
    and "\<And>u. fetchJson ext u = Returned json"
    and "content_of json = JStr s" and "s \<noteq> []"
    and "parseStripped ext s = Returned tr" and "\<not> addTranslationsThrows ext nl tr"
  shows "snd (loadLocale ext opts millis locale lo cache) = invalidate nl cache"
  using assms by (simp add: loadLocale_def falsy_def key_of_def Let_def)

text \<open>
  Claim C3 fails on the code: \<^verbatim>\<open>loadLocale('en', {fresh: true})\<close> stores the timestamp in
  \<^verbatim>\<open>queryParams.ts\<close> and then requests a URL made of the host, the path, the locale
  and \<^verbatim>\<open>type=json\<close> only.
\<close>

theorem loadLocale_fresh_request:
  "loadLocale
     (example_externals\<lparr>fetchJson := (\<lambda>u. Threw)\<rparr>) example_options 1700000000000 ''en''
     \<lparr>fresh = Some True, host = None, pathOnHostArg = None, queryParams = None, silent = None\<rparr>
     Map.empty
   = ([HttpGet ''http://localhost:3000/universe/locale/en?type=json'', ConsoleError], Map.empty)"
  by (simp add: loadLocale_def loadLocale_request_def example_externals_def example_options_def
      example_normalize_def falsy_def key_of_def)

section \<open>Delivery Endpoint: properties\<close>

lemma match_locale_nonempty: "match_locale p = Some l \<Longrightarrow> l \<noteq> []"
  by (auto simp: match_locale_def split: list.splits if_splits)

text \<open>The requests that pass the 415 check: no type, an empty type, or one of the three.\<close>

lemma supported_type_cases:
  "(\<not> q_truthy ty \<or> includes_type ty) =
   (ty = None \<or> ty = Some (QStr []) \<or> ty = Some (QStr ''js'') \<or> ty = Some (QStr ''json'')
    \<or> ty = Some (QStr ''yml''))"
  by (auto simp: q_truthy_def includes_type_def split: option.splits qval.splits)

text \<open>The branch that reads the whole cache is never taken.\<close>

lemma locale_handler_no_TypeError:
  "fst (locale_handler opts gens now req cache) \<noteq> TypeError"
  by (auto simp: locale_handler_def getCache_def cache_at_def Let_def split: option.splits)





text \<open>
  A path that names a member of \<^verbatim>\<open>Object.prototype\<close> without own entry is answered
  with 501 and adds nothing to the cache.
\<close>

lemma locale_handler_inherited_member:
  assumes "\<not> q_truthy (query req ''type'') \<or> includes_type (query req ''type'')"
    and "pathname req = Some p" and "match_locale p = Some L"
    and "L \<in> set Object_prototype_keys" and "cache L = None"
  shows "locale_handler opts gens now req cache = (Response 501 Map.empty None, cache)"
  using assms match_locale_nonempty[OF assms(3)]
  by (auto simp: locale_handler_def falsy_def key_of_def Let_def getCache_def cache_at_def)

text \<open>
  Claim C1 states that a locale without a cache entry is answered with 501.  It is not:
  on an empty cache, \<^verbatim>\<open>GET /xx\<close> is answered with 200, because \<^verbatim>\<open>getCache\<close> has
  just created the entry.
\<close>

theorem locale_handler_never_loaded_counterexample:
  "(Map.empty :: cache) ''xx'' = None \<and>
   match_locale ''/xx'' = Some ''xx'' \<and>
   fst (locale_handler example_options example_generators ''Tue, 03 Nov 2026 06:36:00 GMT''
          \<lparr>pathname = Some ''/xx'', query = Map.empty\<rparr> Map.empty)
     \<noteq> Response 501 Map.empty None \<and>
   status_of
     (fst (locale_handler example_options example_generators ''Tue, 03 Nov 2026 06:36:00 GMT''
             \<lparr>pathname = Some ''/xx'', query = Map.empty\<rparr> Map.empty)) = Some 200"
  by (simp add: locale_handler_def falsy_def key_of_def Let_def getCache_def cache_at_def
      Object_prototype_keys_def status_of_def match_locale_def is_letter_def is_locale_char_def
      q_truthy_def includes_type_def example_options_def example_generators_def)

text \<open>
  Claim C1, amended: for a request whose type is absent, empty or one of \<^verbatim>\<open>js\<close>,
  \<^verbatim>\<open>json\<close>, \<^verbatim>\<open>yml\<close> and whose path parses as a locale \<open>L\<close> that names no member of
  \<^verbatim>\<open>Object.prototype\<close>, the response is 501 without headers and body exactly when the
  entry that \<^verbatim>\<open>getCache(L)\<close> returns has an empty timestamp; when the cache has no entry
  for \<open>L\<close>, that entry is the one just created with the current time, so with a
  non-empty time string the response is 200 with that time as \<^verbatim>\<open>Last-Modified\<close>.
\<close>

theorem locale_handler_501_iff_empty_timestamp:
  assumes "\<not> q_truthy (query req ''type'') \<or> includes_type (query req ''type'')"
    and "pathname req = Some p" and "match_locale p = Some L"
    and "L \<notin> set Object_prototype_keys"
  shows "(fst (locale_handler opts gens now req cache) = Response 501 Map.empty None) =
           (case cache L of None \<Rightarrow> now = [] | Some e \<Rightarrow> updatedAt e = []) \<and>
         (cache L = None \<and> now \<noteq> [] \<longrightarrow>
            (\<exists>hs b. fst (locale_handler opts gens now req cache) = Response 200 hs (Some b) \<and>
               hs ''Last-Modified'' = Some now))"
  using assms match_locale_nonempty[OF assms(3)]
  by (auto simp: locale_handler_def falsy_def key_of_def Let_def getCache_def cache_at_def
      split: option.splits)

theorem locale_handler_501_iff_empty_timestamp_witness:
  "''xx'' \<notin> set Object_prototype_keys \<and>
   (\<exists>hs b.
      fst (locale_handler example_options example_generators ''Tue, 03 Nov 2026 06:36:00 GMT''
             \<lparr>pathname = Some ''/xx'', query = Map.empty\<rparr> Map.empty)
        = Response 200 hs (Some b) \<and>
      hs ''Last-Modified'' = Some ''Tue, 03 Nov 2026 06:36:00 GMT'') \<and>
   fst (locale_handler example_options example_generators ''Tue, 03 Nov 2026 06:36:00 GMT''
          \<lparr>pathname = Some ''/xx'', query = Map.empty\<rparr>
          [''xx'' \<mapsto> \<lparr>updatedAt = [], getYML = genYML example_generators,
                        getJSON = genJSON example_generators, getJS = genJS example_generators\<rparr>])
     = Response 501 Map.empty None"
proof -
  let ?req = "\<lparr>pathname = Some ''/xx'', query = Map.empty\<rparr>"
  have h1: "\<not> q_truthy (query ?req ''type'') \<or> includes_type (query ?req ''type'')"
    by (simp add: q_truthy_def)
  have h2: "pathname ?req = Some ''/xx''" by simp
  have h3: "match_locale ''/xx'' = Some ''xx''"
    by (simp add: match_locale_def is_letter_def is_locale_char_def)
  have h4: "''xx'' \<notin> set Object_prototype_keys"
    by (simp add: Object_prototype_keys_def)
  from locale_handler_501_iff_empty_timestamp [OF h1 h2 h3 h4, of example_options
      example_generators "''Tue, 03 Nov 2026 06:36:00 GMT''" Map.empty]
    locale_handler_501_iff_empty_timestamp [OF h1 h2 h3 h4, of example_options
      example_generators "''Tue, 03 Nov 2026 06:36:00 GMT''"
      "[''xx'' \<mapsto> \<lparr>updatedAt = [], getYML = genYML example_generators,
                     getJSON = genJSON example_generators, getJS = genJS example_generators\<rparr>]"]
    h4
  show ?thesis by simp
qed

text \<open>
  Claim C7 states that a path that does not match is passed through whatever the query
  is.  It is not: the type is checked first, so \<^verbatim>\<open>GET /1?type=xml\<close> is answered
  with 415.
\<close>

theorem locale_handler_pass_through_counterexample:
  "match_locale ''/1'' = None \<and>
   locale_handler example_options example_generators ''Tue, 03 Nov 2026 06:36:00 GMT''
       \<lparr>pathname = Some ''/1'', query = [''type'' \<mapsto> QStr ''xml'']\<rparr> Map.empty
     = (Response 415 Map.empty None, Map.empty)"
  by (simp add: locale_handler_def match_locale_def is_letter_def q_truthy_def includes_type_def)

text \<open>
  Claim C7, amended: a request whose type is absent, empty or one of \<^verbatim>\<open>js\<close>, \<^verbatim>\<open>json\<close>,
  \<^verbatim>\<open>yml\<close> and whose path has no match of the locale pattern is passed through: the
  handler calls \<^verbatim>\<open>next()\<close>, writes no response and leaves the cache as it is, whatever
  the other query parameters are.
\<close>

theorem locale_handler_passes_through:
  assumes "\<not> q_truthy (query req ''type'') \<or> includes_type (query req ''type'')"
    and "Option.bind (pathname req) match_locale = None"
  shows "locale_handler opts gens now req cache = (Next, cache)"
  using assms by (auto simp: locale_handler_def falsy_def Let_def)

theorem locale_handler_passes_through_witness:
  "Option.bind (Some ''/1'') match_locale = None \<and>
   locale_handler example_options example_generators ''Tue, 03 Nov 2026 06:36:00 GMT''
       \<lparr>pathname = Some ''/1'',
          query = [''type'' \<mapsto> QStr ''json'', ''attachment'' \<mapsto> QStr ''1'']\<rparr> Map.empty
     = (Next, Map.empty)"
proof -
  let ?req = "\<lparr>pathname = Some ''/1'',
                 query = [''type'' \<mapsto> QStr ''json'', ''attachment'' \<mapsto> QStr ''1'']\<rparr>"
  have h1: "\<not> q_truthy (query ?req ''type'') \<or> includes_type (query ?req ''type'')"
    by (simp add: includes_type_def)
  have h2: "Option.bind (pathname ?req) match_locale = None"
    by (simp add: match_locale_def is_letter_def)
  from locale_handler_passes_through [OF h1 h2] h2
  show ?thesis by simp
qed




end
